theory Spec2Isabelle
  imports Complex_Main "HOL-Library.Word"
begin

section \<open>Python and NumPy values\<close>

text \<open>
  A Python \<open>float\<close> is an IEEE 754 binary64 number and the coordinate arrays of the tree
  model are binary32. Both are modelled as the real number they denote, and every
  arithmetic operation rounds its exact result to the nearest number with \<open>p\<close> significant
  bits, ties to even (\<open>p = 53\<close> for binary64, \<open>p = 24\<close> for binary32). The exponent range is
  taken as unbounded: overflow, subnormal numbers, infinities and NaN are outside the model.
\<close>

definition round_half_even :: "real \<Rightarrow> int" where
  "round_half_even y = (let f = \<lfloor>y\<rfloor>; d = y - of_int f in
     if d < 1/2 then f else if 1/2 < d then f + 1 else if even f then f else f + 1)"

definition fl :: "nat \<Rightarrow> real \<Rightarrow> real" where
  "fl p x = (if x = 0 then 0 else
     let e = \<lfloor>log 2 \<bar>x\<bar>\<rfloor>; u = 2 powi (e - int p + 1)
     in u * of_int (round_half_even (x / u)))"

text \<open>Binary64 operations of Python floats (and of NumPy \<open>float64\<close>).\<close>

definition fadd :: "real \<Rightarrow> real \<Rightarrow> real" where
  "fadd x y = fl 53 (x + y)"

definition fsub :: "real \<Rightarrow> real \<Rightarrow> real" where
  "fsub x y = fl 53 (x - y)"

definition fmul :: "real \<Rightarrow> real \<Rightarrow> real" where
  "fmul x y = fl 53 (x * y)"

definition fdiv :: "real \<Rightarrow> real \<Rightarrow> real" where
  "fdiv x y = fl 53 (x / y)"

text \<open>Binary32 operations of NumPy \<open>float32\<close> arrays.\<close>

definition fsub32 :: "real \<Rightarrow> real \<Rightarrow> real" where
  "fsub32 x y = fl 24 (x - y)"

definition fdiv32 :: "real \<Rightarrow> real \<Rightarrow> real" where
  "fdiv32 x y = fl 24 (x / y)"

text \<open>A real number that is a binary64 value.\<close>

definition is_double :: "real \<Rightarrow> bool" where
  "is_double x = (fl 53 x = x)"

text \<open>\<open>float(n)\<close> for a Python int, as in \<open>n * x\<close> with a float \<open>x\<close>.\<close>

definition py_float :: "int \<Rightarrow> real" where
  "py_float n = fl 53 (of_int n)"

text \<open>\<open>int(x)\<close> and \<open>astype\<close> to an integer type truncate toward zero.\<close>

definition py_int :: "real \<Rightarrow> int" where
  "py_int x = (if 0 \<le> x then \<lfloor>x\<rfloor> else \<lceil>x\<rceil>)"

text \<open>
  \<open>x % y\<close> on floats: the C \<open>fmod\<close> is exact and has the sign of \<open>x\<close>; a result whose sign
  differs from that of \<open>y\<close> is moved by adding \<open>y\<close>, which rounds. The divisor is never zero
  where the program uses the operator (it is the constant \<open>1.0\<close> or \<open>2 * pi\<close>).
\<close>

definition py_fmod :: "real \<Rightarrow> real \<Rightarrow> real" where
  "py_fmod x y = (let m = x - y * of_int (py_int (x / y)) in
     if m \<noteq> 0 \<and> ((y < 0) \<noteq> (m < 0)) then fadd m y else m)"

text \<open>
  Exceptions. A \<open>ValueError\<close> carries its message, which tells the errors of the program's own
  checks from those that NumPy raises.
\<close>

datatype error =
    ZeroDivisionError
  | ValueError string
  | IndexError
  | OverflowError
  | MemoryError
  | FileNotFoundError
  | OtherException

text \<open>Sequencing of fallible steps: the first exception ends the computation.\<close>

fun bindE :: "error + 'a \<Rightarrow> ('a \<Rightarrow> error + 'b) \<Rightarrow> error + 'b" where
  "bindE (Inl e) f = Inl e"
| "bindE (Inr x) f = f x"

text \<open>
  Indexing a Python list or a NumPy array: a negative index counts from the end, an index
  outside \<open>[-len, len)\<close> raises \<open>IndexError\<close>.
\<close>

definition py_index :: "'a list \<Rightarrow> int \<Rightarrow> error + 'a" where
  "py_index xs i =
     (if 0 \<le> i \<and> i < int (length xs) then Inr (xs ! nat i)
      else if - int (length xs) \<le> i \<and> i < 0 then Inr (xs ! nat (int (length xs) + i))
      else Inl IndexError)"

section \<open>Colour utilities (module color utils)\<close>

type_synonym color = "int \<times> int \<times> int"

text \<open>\<open>colorsys.hsv_to_rgb\<close> of the Python standard library, which \<open>hsv_to_rgb\<close> calls.\<close>

definition colorsys_hsv_to_rgb :: "real \<Rightarrow> real \<Rightarrow> real \<Rightarrow> real \<times> real \<times> real" where
  "colorsys_hsv_to_rgb h s v =
     (if s = 0 then (v, v, v)
      else let i = py_int (fmul h 6);
               f = fsub (fmul h 6) (py_float i);
               p = fmul v (fsub 1 s);
               q = fmul v (fsub 1 (fmul s f));
               t = fmul v (fsub 1 (fmul s (fsub 1 f)));
               i6 = i mod 6
           in if i6 = 0 then (v, t, p)
              else if i6 = 1 then (q, v, p)
              else if i6 = 2 then (p, v, t)
              else if i6 = 3 then (p, q, v)
              else if i6 = 4 then (t, p, v)
              else (v, p, q))"

definition hsv_to_rgb :: "real \<Rightarrow> real \<Rightarrow> real \<Rightarrow> color" where
  "hsv_to_rgb h s v =
     (case colorsys_hsv_to_rgb h s v of
        (r, g, b) \<Rightarrow> (py_int (fmul r 255), py_int (fmul g 255), py_int (fmul b 255)))"

text \<open>\<open>wheel\<close> works on Python ints, which do not wrap; it does not reduce its argument.\<close>

definition wheel :: "int \<Rightarrow> color" where
  "wheel pos0 =
     (let pos = 255 - pos0 in
      if pos < 85 then (255 - pos * 3, 0, pos * 3)
      else if pos < 170 then (0, (pos - 85) * 3, 255 - (pos - 85) * 3)
      else ((pos - 170) * 3, 255 - (pos - 170) * 3, 0))"

definition blend_channel :: "int \<Rightarrow> int \<Rightarrow> real \<Rightarrow> int" where
  "blend_channel a b ratio =
     py_int (fadd (fmul (py_float a) (fsub 1 ratio)) (fmul (py_float b) ratio))"

definition blend_colors :: "color \<Rightarrow> color \<Rightarrow> real \<Rightarrow> color" where
  "blend_colors color1 color2 ratio0 =
     (let ratio = max 0 (min 1 ratio0) in
      (blend_channel (fst color1) (fst color2) ratio,
       blend_channel (fst (snd color1)) (fst (snd color2)) ratio,
       blend_channel (snd (snd color1)) (snd (snd color2)) ratio))"

text \<open>An RGB colour: three channels in \<open>0..255\<close>.\<close>

definition rgb :: "color \<Rightarrow> bool" where
  "rgb c = (case c of (r, g, b) \<Rightarrow>
      0 \<le> r \<and> r \<le> 255 \<and> 0 \<le> g \<and> g \<le> 255 \<and> 0 \<le> b \<and> b \<le> 255)"

section \<open>The tree model (class TreeModel)\<close>

text \<open>
  \<open>coordinates\<close> is a two-dimensional \<open>float32\<close> array, modelled as the list of its rows.
  \<open>bounds\<close> holds the \<open>(min, max)\<close> pairs of the first three columns and \<open>center\<close> the column
  means. The fields \<open>bounds\<close> and \<open>center\<close> are \<open>None\<close> only while the constructor runs; a
  constructed model always has them.
\<close>

record tree_model =
  tm_led_count :: int
  coordinates :: "real list list"
  bounds :: "(real \<times> real) \<times> (real \<times> real) \<times> (real \<times> real)"
  center :: "real list"

text \<open>Column \<open>k\<close> of the array, for \<open>k\<close> below the row length.\<close>

definition column :: "nat \<Rightarrow> real list list \<Rightarrow> real list" where
  "column k rows = map (\<lambda>row. row ! k) rows"

text \<open>
  \<open>np.mean\<close> along axis 0. The order in which NumPy adds the rows in \<open>float32\<close> is not
  modelled: the sum is exact and the quotient is rounded once.
\<close>

definition np_mean_axis0 :: "real list list \<Rightarrow> real list" where
  "np_mean_axis0 rows =
     map (\<lambda>k. fl 24 (sum_list (column k rows) / of_nat (length rows)))
       [0 ..< length (hd rows)]"

text \<open>
  \<open>_calculate_bounds\<close>: \<open>np.min\<close> and \<open>np.max\<close> raise \<open>ValueError\<close> on an array without rows,
  and \<open>min_coords[2]\<close> raises \<open>IndexError\<close> when the rows have fewer than three columns.
\<close>

definition calculate_bounds :: "int \<Rightarrow> real list list \<Rightarrow> error + tree_model" where
  "calculate_bounds n rows =
     (if rows = [] then
        Inl (ValueError ''zero-size array to reduction operation minimum which has no identity'')
      else if length (hd rows) < 3 then Inl IndexError
      else Inr \<lparr> tm_led_count = n, coordinates = rows,
                 bounds = ((Min (set (column 0 rows)), Max (set (column 0 rows))),
                           (Min (set (column 1 rows)), Max (set (column 1 rows))),
                           (Min (set (column 2 rows)), Max (set (column 2 rows)))),
                 center = np_mean_axis0 rows \<rparr>)"

text \<open>
  \<open>np.linspace(0, 1, n)\<close> stored into the \<open>float32\<close> column: \<open>i * step\<close> in binary64 with
  \<open>step = 1 / (n - 1)\<close>, the last entry set to the end point, a single entry being \<open>0\<close>.
\<close>

definition linspace01 :: "nat \<Rightarrow> real list" where
  "linspace01 n =
     map (\<lambda>i. if 1 < n \<and> i = n - 1 then 1
               else fl 24 (fmul (of_nat i) (fdiv 1 (of_nat (n - 1))))) [0 ..< n]"

text \<open>\<open>_create_linear_fallback\<close>: \<open>np.zeros\<close> refuses a negative row count.\<close>

definition create_linear_fallback :: "int \<Rightarrow> error + tree_model" where
  "create_linear_fallback n =
     (if n < 0 then Inl (ValueError ''negative dimensions are not allowed'')
      else calculate_bounds n (map (\<lambda>z. [0, 0, z]) (linspace01 (nat n))))"

text \<open>
  The outcome of reading and parsing the file (lines 46 to 64 of \<open>load_from_csv\<close>): the file is
  missing, any other exception was raised (an empty file, a field that is not a number), or
  the list of parsed rows. The first row is kept with as many fields as it has; every later
  row has exactly three.
\<close>

datatype csv_read = FileMissing | ReadFailed | Rows "real list list"

text \<open>\<open>np.array(rows, dtype=float32)\<close> needs rows of one length and rounds each field.\<close>

definition np_array_float32 :: "real list list \<Rightarrow> error + real list list" where
  "np_array_float32 rows =
     (if list_all (\<lambda>row. length row = length (hd rows)) rows
      then Inr (map (map (fl 24)) rows)
      else Inl (ValueError ''setting an array element with a sequence''))"

text \<open>
  \<open>load_from_csv\<close>. \<open>led_count\<close> is assigned before \<open>_calculate_bounds\<close> runs, so the
  fallback of the exception handler sees the corrected count.
\<close>

definition load_from_csv :: "csv_read \<Rightarrow> int \<Rightarrow> error + tree_model" where
  "load_from_csv src n =
     (case src of
        FileMissing \<Rightarrow> create_linear_fallback n
      | ReadFailed \<Rightarrow> create_linear_fallback n
      | Rows rows \<Rightarrow>
          (case np_array_float32 rows of
             Inl e \<Rightarrow> create_linear_fallback n
           | Inr coords \<Rightarrow>
               (let n' = (if int (length coords) \<noteq> n then int (length coords) else n) in
                case calculate_bounds n' coords of
                  Inl e \<Rightarrow> create_linear_fallback n'
                | Inr m \<Rightarrow> Inr m)))"

text \<open>The constructor: \<open>csv_path\<close> is \<open>None\<close> (or empty) or names a file that is read.\<close>

definition TreeModel_init :: "csv_read option \<Rightarrow> int \<Rightarrow> error + tree_model" where
  "TreeModel_init csv n =
     (case csv of None \<Rightarrow> create_linear_fallback n | Some src \<Rightarrow> load_from_csv src n)"


text \<open>
  \<open>get_height_normalized\<close>: the slice \<open>coordinates[:, 2]\<close> raises \<open>IndexError\<close> without a
  third column, and \<open>np.zeros\<close> refuses a negative length.
\<close>

definition get_height_normalized :: "tree_model \<Rightarrow> error + real list" where
  "get_height_normalized m =
     (if \<not> list_all (\<lambda>row. 3 \<le> length row) (coordinates m) then Inl IndexError
      else let z_min = fst (snd (snd (bounds m))); z_max = snd (snd (snd (bounds m))) in
        if z_min < z_max
        then Inr (map (\<lambda>z. fdiv32 (fsub32 z z_min) (fsub32 z_max z_min))
                    (column 2 (coordinates m)))
        else if tm_led_count m < 0 then Inl (ValueError ''negative dimensions are not allowed'')
        else Inr (replicate (nat (tm_led_count m)) 0))"





section \<open>The effect base class (class Effect)\<close>

text \<open>
  The pixel buffer is a \<open>uint8\<close> array with three columns. The keyword arguments kept in
  \<open>params\<close> are read by no method and are left out.
\<close>

type_synonym pixel = "8 word \<times> 8 word \<times> 8 word"

record effect =
  led_count :: int
  fps :: int
  frame_time :: real
  tree_model :: "tree_model option"
  start_time :: "real option"
  current_time :: real
  frame_count :: int
  pixels :: "pixel list"
  running :: bool

text \<open>
  A Python int whose conversion to a float raises \<open>OverflowError\<close>: its rounded value is
  beyond the largest binary64 number.
\<close>

definition float_of_int_overflows :: "int \<Rightarrow> bool" where
  "float_of_int_overflows k = (2 ^ 1024 \<le> \<bar>fl 53 (of_int k)\<bar>)"

text \<open>
  \<open>Effect.__init__\<close>. \<open>1.0 / fps\<close> raises \<open>OverflowError\<close> for an int too large for a float
  and \<open>ZeroDivisionError\<close> for \<open>fps = 0\<close>. \<open>np.zeros((led_count, 3), dtype=np.uint8)\<close>
  refuses a negative \<open>led_count\<close> and a size of \<open>2^63\<close> bytes or more, and raises
  \<open>MemoryError\<close> when the buffer cannot be allocated: \<open>max_alloc\<close> is the number of bytes
  that the machine grants.
\<close>

definition Effect_init :: "int \<Rightarrow> int \<Rightarrow> int \<Rightarrow> tree_model option \<Rightarrow> error + effect" where
  "Effect_init max_alloc n f tm =
     (if float_of_int_overflows f then Inl OverflowError
      else if f = 0 then Inl ZeroDivisionError
      else if n < 0 then Inl (ValueError ''negative dimensions are not allowed'')
      else if 2 ^ 63 \<le> n * 3 then Inl (ValueError ''Maximum allowed dimension exceeded'')
      else if max_alloc < n * 3 then Inl MemoryError
      else Inr \<lparr> led_count = n, fps = f, frame_time = fdiv 1 (py_float f), tree_model = tm,
                 start_time = None, current_time = 0, frame_count = 0,
                 pixels = replicate (nat n) (0, 0, 0), running = False \<rparr>)"

text \<open>
  \<open>start\<close> reads the clock once; \<open>on_start\<close> and \<open>on_stop\<close> do nothing in the base class and
  no effect of the repository overrides them.
\<close>

definition start :: "real \<Rightarrow> 'a effect_scheme \<Rightarrow> 'a effect_scheme" where
  "start now e = e\<lparr> start_time := Some now, current_time := 0, frame_count := 0,
                     running := True \<rparr>"

definition stop :: "'a effect_scheme \<Rightarrow> 'a effect_scheme" where
  "stop e = e\<lparr> running := False \<rparr>"

definition clear :: "'a effect_scheme \<Rightarrow> 'a effect_scheme" where
  "clear e = e\<lparr> pixels := replicate (length (pixels e)) (0, 0, 0) \<rparr>"

definition reset :: "'a effect_scheme \<Rightarrow> 'a effect_scheme" where
  "reset e = e\<lparr> pixels := replicate (length (pixels e)) (0, 0, 0), frame_count := 0,
                 current_time := 0 \<rparr>"

definition get_pixels :: "'a effect_scheme \<Rightarrow> pixel list" where
  "get_pixels e = pixels e"

definition get_time :: "'a effect_scheme \<Rightarrow> real" where
  "get_time e = current_time e"

text \<open>A Python int that a \<open>uint8\<close> entry can hold.\<close>

definition uint8_ok :: "int \<Rightarrow> bool" where
  "uint8_ok k = (0 \<le> k \<and> k \<le> 255)"

text \<open>
  \<open>set_pixel\<close>: the guard compares with \<open>led_count\<close>; the assignment itself raises
  \<open>IndexError\<close> if the buffer is shorter, and it raises \<open>OverflowError\<close> for a Python int
  outside \<open>0..255\<close>, which NumPy 2 refuses to store into a \<open>uint8\<close> array and stores nothing
  (NumPy 1 stored its low eight bits, with a warning).
\<close>

definition set_pixel :: "int \<Rightarrow> int \<Rightarrow> int \<Rightarrow> int \<Rightarrow> 'a effect_scheme \<Rightarrow> error + 'a effect_scheme" where
  "set_pixel index r g b e =
     (if 0 \<le> index \<and> index < led_count e then
        (if \<not> index < int (length (pixels e)) then Inl IndexError
         else if \<not> (uint8_ok r \<and> uint8_ok g \<and> uint8_ok b) then Inl OverflowError
         else Inr (e\<lparr> pixels := (pixels e)[nat index := (word_of_int r, word_of_int g, word_of_int b)] \<rparr>))
      else Inr e)"

definition set_all_pixels :: "int \<Rightarrow> int \<Rightarrow> int \<Rightarrow> 'a effect_scheme \<Rightarrow> error + 'a effect_scheme" where
  "set_all_pixels r g b e =
     (if \<not> (uint8_ok r \<and> uint8_ok g \<and> uint8_ok b) then Inl OverflowError
      else Inr (e\<lparr> pixels := replicate (length (pixels e))
                                  (word_of_int r, word_of_int g, word_of_int b) \<rparr>))"

text \<open>
  \<open>fade_to_black\<close>: the \<open>uint8\<close> array times the Python float \<open>1.0 - fade_amount\<close> is a
  \<open>float64\<close> array, and \<open>astype(np.uint8)\<close> truncates each entry.
\<close>

definition fade_channel :: "real \<Rightarrow> 8 word \<Rightarrow> 8 word" where
  "fade_channel fade_amount c = word_of_int (py_int (fmul (of_int (uint c)) (fsub 1 fade_amount)))"

definition fade_to_black :: "real \<Rightarrow> 'a effect_scheme \<Rightarrow> 'a effect_scheme" where
  "fade_to_black fade_amount e =
     e\<lparr> pixels := map (\<lambda>(r, g, b). (fade_channel fade_amount r, fade_channel fade_amount g,
                                       fade_channel fade_amount b)) (pixels e) \<rparr>"

text \<open>
  \<open>tick\<close>. The abstract method \<open>update\<close> is the parameter \<open>upd\<close>. \<open>time.time()\<close> is read
  once, and once more before that when \<open>start_time\<close> is \<open>None\<close>: \<open>now0\<close> is that first reading
  and \<open>now\<close> the reading called \<open>current\<close>. The result is the returned buffer and the state.
\<close>

definition tick ::
  "(real \<Rightarrow> 'a effect_scheme \<Rightarrow> error + 'a effect_scheme) \<Rightarrow> real \<Rightarrow> real \<Rightarrow> 'a effect_scheme
     \<Rightarrow> error + (pixel list \<times> 'a effect_scheme)" where
  "tick upd now0 now e =
     (if \<not> running e then Inr (pixels e, e)
      else let st = (case start_time e of None \<Rightarrow> now0 | Some t \<Rightarrow> t);
               dt = fsub now (fadd st (current_time e));
               e1 = e\<lparr> start_time := Some st, current_time := fadd (current_time e) dt,
                        frame_count := frame_count e + 1 \<rparr>
           in case upd dt e1 of Inl err \<Rightarrow> Inl err | Inr e2 \<Rightarrow> Inr (pixels e2, e2))"

text \<open>
  A run of ticks, one reading \<open>current\<close> each: the result lists \<open>current_time\<close> after every
  tick. \<open>now0\<close> is consumed by the first tick only, and only if \<open>start_time\<close> is \<open>None\<close>.
\<close>

fun elapsed_trace ::
  "(real \<Rightarrow> 'a effect_scheme \<Rightarrow> error + 'a effect_scheme) \<Rightarrow> real \<Rightarrow> real list \<Rightarrow> 'a effect_scheme
     \<Rightarrow> error + real list" where
  "elapsed_trace upd now0 [] e = Inr []"
| "elapsed_trace upd now0 (now # rest) e =
     (case tick upd now0 now e of
        Inl err \<Rightarrow> Inl err
      | Inr (buf, e') \<Rightarrow>
          (case elapsed_trace upd now0 rest e' of
             Inl err \<Rightarrow> Inl err
           | Inr ts \<Rightarrow> Inr (current_time e' # ts)))"

section \<open>The rainbow (class RainbowEffect)\<close>

record rainbow = effect +
  rb_speed :: real
  offset :: real

text \<open>The constructor passes no model to \<open>Effect.__init__\<close>.\<close>

definition RainbowEffect_init :: "int \<Rightarrow> int \<Rightarrow> int \<Rightarrow> real \<Rightarrow> error + rainbow" where
  "RainbowEffect_init cap n f spd =
     (case Effect_init cap n f None of
        Inl err \<Rightarrow> Inl err
      | Inr base \<Rightarrow> Inr (effect.extend base (rainbow.fields spd 0)))"

text \<open>
  The position that \<open>update\<close> passes to \<open>wheel\<close> for LED \<open>i\<close>:
  \<open>int((i * 256 / led_count) + offset) % 256\<close>. The quotient of two Python ints is the
  correctly rounded float; \<open>%\<close> on ints gives a result in \<open>0..255\<close>.
\<close>

definition pixel_index :: "int \<Rightarrow> int \<Rightarrow> real \<Rightarrow> int" where
  "pixel_index i n off = py_int (fadd (fl 53 (of_int (i * 256) / of_int n)) off) mod 256"

text \<open>
  The loop of \<open>update\<close>: \<open>pixels[i] = wheel(pixel_index)\<close>, an assignment without the guard of
  \<open>set_pixel\<close>.
\<close>

fun rainbow_loop :: "nat list \<Rightarrow> rainbow \<Rightarrow> error + rainbow" where
  "rainbow_loop [] e = Inr e"
| "rainbow_loop (i # rest) e =
     (case wheel (pixel_index (int i) (led_count e) (offset e)) of
        (r, g, b) \<Rightarrow>
          if \<not> i < length (pixels e) then Inl IndexError
          else if \<not> (uint8_ok r \<and> uint8_ok g \<and> uint8_ok b) then Inl OverflowError
          else rainbow_loop rest
                 (e\<lparr> pixels := (pixels e)[i := (word_of_int r, word_of_int g, word_of_int b)] \<rparr>))"

text \<open>\<open>update\<close> advances the offset by \<open>dt * speed * 50\<close> and recolours every LED.\<close>

definition rainbow_update :: "real \<Rightarrow> rainbow \<Rightarrow> error + rainbow" where
  "rainbow_update dt e =
     rainbow_loop [0 ..< nat (led_count e)]
       (e\<lparr> offset := fadd (offset e) (fmul (fmul dt (rb_speed e)) 50) \<rparr>)"

section \<open>The height gradient (class HeightGradientEffect)\<close>

record height_gradient = effect +
  colors :: "color list option"
  animated :: bool
  speed :: real
  heights :: "real list"

text \<open>
  The constructor runs \<open>Effect.__init__\<close> first and checks the model afterwards.
\<close>

definition HeightGradientEffect_init ::
  "int \<Rightarrow> int \<Rightarrow> int \<Rightarrow> tree_model option \<Rightarrow> color list option \<Rightarrow> bool \<Rightarrow> real
     \<Rightarrow> error + height_gradient" where
  "HeightGradientEffect_init cap n f tm cs anim spd =
     (case Effect_init cap n f tm of
        Inl err \<Rightarrow> Inl err
      | Inr base \<Rightarrow>
          (case tm of
             None \<Rightarrow> Inl (ValueError ''HeightGradientEffect requires a tree_model'')
           | Some m \<Rightarrow>
               (case get_height_normalized m of
                  Inl err \<Rightarrow> Inl err
                | Inr hs \<Rightarrow>
                    Inr (effect.extend base
                          (height_gradient.fields cs anim spd hs)))))"

text \<open>
  \<open>_interpolate_colors\<close>. The scalar arithmetic is taken in binary64 (NumPy 2 keeps a
  \<open>float32\<close> height in binary32; the values in the theorems below are exact in both).
\<close>

definition interpolate_colors :: "color list \<Rightarrow> real \<Rightarrow> error + color" where
  "interpolate_colors cs position =
     (if length cs = 1 then Inr (cs ! 0)
      else let segment_size = fdiv 1 (py_float (int (length cs) - 1));
               segment_idx = min (py_int (fdiv position segment_size)) (int (length cs) - 2);
               segment_pos = fdiv (fsub position (fmul (py_float segment_idx) segment_size))
                                  segment_size
           in case py_index cs segment_idx of
                Inl err \<Rightarrow> Inl err
              | Inr color1 \<Rightarrow>
                  (case py_index cs (segment_idx + 1) of
                     Inl err \<Rightarrow> Inl err
                   | Inr color2 \<Rightarrow> Inr (blend_colors color1 color2 segment_pos)))"

text \<open>The colour that \<open>update\<close> gives to a LED of normalized height \<open>h\<close>.\<close>

definition led_color :: "color list option \<Rightarrow> real \<Rightarrow> real \<Rightarrow> error + color" where
  "led_color cs time_offset h =
     (let height = py_fmod (fadd h time_offset) 1 in
      case cs of
        None \<Rightarrow> Inr (hsv_to_rgb height 1 1)
      | Some cl \<Rightarrow> interpolate_colors cl height)"

text \<open>The loop of \<open>update\<close> over \<open>range(led_count)\<close>.\<close>

fun update_loop :: "nat list \<Rightarrow> real \<Rightarrow> height_gradient \<Rightarrow> error + height_gradient" where
  "update_loop [] time_offset e = Inr e"
| "update_loop (i # rest) time_offset e =
     (case py_index (heights e) (int i) of
        Inl err \<Rightarrow> Inl err
      | Inr h \<Rightarrow>
          (case led_color (colors e) time_offset h of
             Inl err \<Rightarrow> Inl err
           | Inr (r, g, b) \<Rightarrow>
               (case set_pixel (int i) r g b e of
                  Inl err \<Rightarrow> Inl err
                | Inr e' \<Rightarrow> update_loop rest time_offset e')))"

definition update :: "real \<Rightarrow> height_gradient \<Rightarrow> error + height_gradient" where
  "update dt e =
     (let time_offset = (if animated e then fmul (get_time e) (speed e) else 0)
      in update_loop [0 ..< nat (led_count e)] time_offset e)"

section \<open>The other spatially aware effects: constructors\<close>

record rising_wave = effect +
  rw_speed :: real
  wave_height :: real
  hue :: real
  rw_heights :: "real list"


record spiral = effect +
  sp_speed :: real
  rotations :: real
  width :: real
  sp_heights :: "real list"
  sp_angles :: "real list"


record rotating_plane = effect +
  rp_speed :: real
  thickness :: real
  rp_angles :: "real list"
  rp_heights :: "real list"


record sphere_pulse = effect +
  spp_speed :: real
  pulse_width :: real
  num_pulses :: int
  max_distance :: real
  pulse_origins :: "real list list"





section \<open>Example data\<close>

text \<open>An effect with two LEDs, used to run the buffer operations on concrete values.\<close>

definition example_effect :: effect where
  "example_effect =
     \<lparr> led_count = 2, fps = 30, frame_time = 1, tree_model = None, start_time = None,
       current_time = 0, frame_count = 0, pixels = [(255, 3, 0), (4, 5, 6)], running = False \<rparr>"



text \<open>The linear fallback for three LEDs.\<close>

definition line3_model :: tree_model where
  "line3_model = \<lparr> tm_led_count = 3, coordinates = [[0, 0, 0], [0, 0, 1 / 2], [0, 0, 1]],
       bounds = ((0, 0), (0, 0), (0, 1)), center = [0, 0, 1 / 2] \<rparr>"


text \<open>The colour list of the gradient scenario.\<close>

definition blue_red :: "color list" where
  "blue_red = [(0, 0, 255), (255, 0, 0)]"

section \<open>Invariant of a constructed model\<close>



section \<open>Rounding: exactness and monotonicity\<close>

lemma round_half_even_of_int [simp]: "round_half_even (of_int n) = n"
  by (simp add: round_half_even_def)

lemma round_half_even_pow2 [simp]: "round_half_even (2 ^ n) = 2 ^ n"
  using round_half_even_of_int[of "2 ^ n"] by simp

lemma round_half_even_cases:
  "round_half_even y = \<lfloor>y\<rfloor> \<or> round_half_even y = \<lfloor>y\<rfloor> + 1"
  by (simp add: round_half_even_def Let_def)

lemma round_half_even_lower: "y - 1/2 \<le> of_int (round_half_even y)"
  unfolding round_half_even_def Let_def by (auto; linarith)

lemma round_half_even_upper: "of_int (round_half_even y) \<le> y + 1/2"
  unfolding round_half_even_def Let_def by (auto; linarith)

lemma round_half_even_mono:
  assumes "x \<le> y" shows "round_half_even x \<le> round_half_even y"
proof (cases "\<lfloor>x\<rfloor> = \<lfloor>y\<rfloor>")
  case True
  then show ?thesis using assms
    unfolding round_half_even_def Let_def by (auto; linarith)
next
  case False
  with assms have "\<lfloor>x\<rfloor> + 1 \<le> \<lfloor>y\<rfloor>" using floor_mono[OF assms] by linarith
  moreover have "round_half_even x \<le> \<lfloor>x\<rfloor> + 1" using round_half_even_cases[of x] by linarith
  moreover have "\<lfloor>y\<rfloor> \<le> round_half_even y" using round_half_even_cases[of y] by linarith
  ultimately show ?thesis by linarith
qed

lemma round_half_even_minus: "round_half_even (- y) = - round_half_even y"
proof (cases "y \<in> \<int>")
  case True
  then obtain n where "y = of_int n" by (auto elim: Ints_cases)
  then show ?thesis by (simp flip: of_int_minus)
next
  case False
  then have "y \<noteq> of_int \<lfloor>y\<rfloor>" by (metis Ints_of_int)
  then have fl: "\<lfloor>- y\<rfloor> = - \<lfloor>y\<rfloor> - 1"
    by (simp add: floor_minus ceiling_altdef)
  show ?thesis
    unfolding round_half_even_def Let_def fl
    by (auto; linarith?)
qed

lemma fl_zero [simp]: "fl p 0 = 0"
  by (simp add: fl_def)

lemma fl_minus: "fl p (- x) = - fl p x"
  by (simp add: fl_def Let_def round_half_even_minus)

lemma powr2_int: "2 powr (real_of_int k) = (2::real) powi k"
  by (simp add: powr_real_of_int')

lemma powr2_int_Suc: "2 powr (real_of_int k + 1) = (2::real) powi (k + 1)"
  using powr2_int[of "k + 1"] by simp

lemma floor_log2_bounds:
  assumes "0 < x"
  shows "2 powi \<lfloor>log 2 x\<rfloor> \<le> x" and "x < 2 powi (\<lfloor>log 2 x\<rfloor> + 1)"
  using floor_log_eq_powr_iff[of x 2 "\<lfloor>log 2 x\<rfloor>"] assms
  by (simp_all add: powr2_int powr2_int_Suc)

lemma floor_log2_eqI:
  assumes "2 powi k \<le> x" "x < 2 powi (k + 1)"
  shows "\<lfloor>log 2 x\<rfloor> = k"
proof -
  have "(0::real) < 2 powi k" by simp
  with assms(1) have "0 < x" by linarith
  then show ?thesis
    using floor_log_eq_powr_iff[of x 2 k] assms by (simp add: powr2_int powr2_int_Suc)
qed


lemma fl_unfold:
  assumes "2 powi k \<le> \<bar>x\<bar>" "\<bar>x\<bar> < 2 powi (k + 1)"
  shows "fl p x = 2 powi (k - int p + 1) * of_int (round_half_even (x / 2 powi (k - int p + 1)))"
proof -
  have "(0::real) < 2 powi k" by simp
  with assms(1) have "0 < \<bar>x\<bar>" by linarith
  then have "x \<noteq> 0" by simp
  moreover have "\<lfloor>log 2 \<bar>x\<bar>\<rfloor> = k" using assms by (rule floor_log2_eqI)
  ultimately show ?thesis by (simp add: fl_def Let_def)
qed

lemma fl_pos_range:
  assumes "0 < x" "0 < p"
  shows "2 powi \<lfloor>log 2 x\<rfloor> \<le> fl p x" and "fl p x \<le> 2 powi (\<lfloor>log 2 x\<rfloor> + 1)"
proof -
  define e where "e = \<lfloor>log 2 x\<rfloor>"
  define u :: real where "u = 2 powi (e - int p + 1)"
  have u: "0 < u" by (simp add: u_def)
  have lo: "2 powi e \<le> x" and hi: "x < 2 powi (e + 1)"
    using floor_log2_bounds[OF assms(1)] by (simp_all add: e_def)
  have e_u: "2 powi e = u * of_int (2 ^ (p - 1))"
  proof -
    have "e = (e - int p + 1) + int (p - 1)" using assms(2) by simp
    then have "(2::real) powi e = 2 powi (e - int p + 1) * 2 powi (int (p - 1))"
      by (metis power_int_add zero_neq_numeral)
    then show ?thesis by (simp add: u_def)
  qed
  have e1_u: "2 powi (e + 1) = u * of_int (2 ^ p)"
  proof -
    have "e + 1 = (e - int p + 1) + int p" by simp
    then have "(2::real) powi (e + 1) = 2 powi (e - int p + 1) * 2 powi (int p)"
      by (metis power_int_add zero_neq_numeral)
    then show ?thesis by (simp add: u_def)
  qed
  have "u * of_int (2 ^ (p - 1)) \<le> x" using lo by (simp only: e_u)
  then have "of_int (2 ^ (p - 1)) \<le> x / u" using u by (simp add: field_simps)
  then have r_lo: "2 ^ (p - 1) \<le> round_half_even (x / u)"
    using round_half_even_mono[of "of_int (2 ^ (p - 1))" "x / u"] by simp
  have "x < u * of_int (2 ^ p)" using hi by (simp only: e1_u)
  then have "x / u \<le> of_int (2 ^ p)" using u by (simp add: field_simps)
  then have r_hi: "round_half_even (x / u) \<le> 2 ^ p"
    using round_half_even_mono[of "x / u" "of_int (2 ^ p)"] by simp
  have fl: "fl p x = u * of_int (round_half_even (x / u))"
    using assms(1) by (simp add: fl_def e_def u_def Let_def)
  have "u * of_int (2 ^ (p - 1)) \<le> u * of_int (round_half_even (x / u))"
    using r_lo u by (simp only: mult_le_cancel_left_pos of_int_le_iff)
  then show "2 powi \<lfloor>log 2 x\<rfloor> \<le> fl p x" using e_u fl by (simp add: e_def)
  have "u * of_int (round_half_even (x / u)) \<le> u * of_int (2 ^ p)"
    using r_hi u by (simp only: mult_le_cancel_left_pos of_int_le_iff)
  then show "fl p x \<le> 2 powi (\<lfloor>log 2 x\<rfloor> + 1)" using e1_u fl by (simp add: e_def)
qed

lemma fl_pos: "0 < x \<Longrightarrow> 0 < p \<Longrightarrow> 0 < fl p x"
  using fl_pos_range(1)[of x p] zero_less_power_int[of "2::real" "\<lfloor>log 2 x\<rfloor>"] by linarith

lemma fl_mono_pos:
  assumes "0 < x" "x \<le> y" "0 < p"
  shows "fl p x \<le> fl p y"
proof -
  have y: "0 < y" using assms by linarith
  have le: "\<lfloor>log 2 x\<rfloor> \<le> \<lfloor>log 2 y\<rfloor>"
    using assms y by (intro floor_mono) simp
  show ?thesis
  proof (cases "\<lfloor>log 2 x\<rfloor> = \<lfloor>log 2 y\<rfloor>")
    case True
    define u :: real where "u = 2 powi (\<lfloor>log 2 y\<rfloor> - int p + 1)"
    have u: "0 < u" by (simp add: u_def)
    have "x / u \<le> y / u" using assms(2) u by (simp add: divide_right_mono)
    then have "round_half_even (x / u) \<le> round_half_even (y / u)"
      by (rule round_half_even_mono)
    then have "u * of_int (round_half_even (x / u)) \<le> u * of_int (round_half_even (y / u))"
      using u by (simp only: mult_le_cancel_left_pos of_int_le_iff)
    then show ?thesis using assms(1) y True by (simp add: fl_def u_def Let_def)
  next
    case False
    with le have "\<lfloor>log 2 x\<rfloor> + 1 \<le> \<lfloor>log 2 y\<rfloor>" by linarith
    then have "(2::real) powi (\<lfloor>log 2 x\<rfloor> + 1) \<le> 2 powi \<lfloor>log 2 y\<rfloor>"
      by (intro power_int_increasing) simp_all
    with fl_pos_range(2)[OF assms(1,3)] fl_pos_range(1)[OF y assms(3)]
    show ?thesis by linarith
  qed
qed

lemma fl_mono:
  assumes "x \<le> y" "0 < p"
  shows "fl p x \<le> fl p y"
proof -
  consider "0 < x" | "x \<le> 0" "0 \<le> y" | "y < 0" by linarith
  then show ?thesis
  proof cases
    case 1
    then show ?thesis using assms by (simp add: fl_mono_pos)
  next
    case 2
    have "fl p x \<le> 0"
    proof (cases "x = 0")
      case False
      with 2 have "0 < - x" by simp
      from fl_pos[OF this assms(2)] show ?thesis by (simp add: fl_minus)
    qed simp
    moreover have "0 \<le> fl p y"
    proof (cases "y = 0")
      case False
      with 2 have "0 < y" by simp
      from fl_pos[OF this assms(2)] show ?thesis by simp
    qed simp
    ultimately show ?thesis by linarith
  next
    case 3
    then have "0 < - y" "- y \<le> - x" using assms by simp_all
    from fl_mono_pos[OF this assms(2)] show ?thesis by (simp add: fl_minus)
  qed
qed

lemma fl_exact:
  assumes "x = of_int m * 2 powi k" "\<bar>m\<bar> < 2 ^ p"
  shows "fl p x = x"
proof (cases "m = 0")
  case True
  then show ?thesis using assms by simp
next
  case False
  define e where "e = \<lfloor>log 2 \<bar>x\<bar>\<rfloor>"
  have ax: "\<bar>x\<bar> = of_int \<bar>m\<bar> * 2 powi k" by (simp add: assms(1) abs_mult)
  have xpos: "0 < \<bar>x\<bar>" using False by (simp add: assms(1))
  have "2 powi e \<le> \<bar>x\<bar>" using floor_log2_bounds(1)[OF xpos] by (simp add: e_def)
  also have "\<bar>x\<bar> < of_int (2 ^ p) * 2 powi k"
    unfolding ax using assms(2) by (intro mult_strict_right_mono) (simp_all only: of_int_less_iff zero_less_power_int zero_less_numeral)
  also have "\<dots> = 2 powi (int p + k)" by (simp add: power_int_add)
  finally have lt: "(2::real) powi e < 2 powi (int p + k)" .
  have "e < int p + k"
  proof (rule ccontr)
    assume "\<not> e < int p + k"
    then have "(2::real) powi (int p + k) \<le> 2 powi e"
      by (intro power_int_increasing) simp_all
    with lt show False by linarith
  qed
  define j where "j = nat (k - (e - int p + 1))"
  with \<open>e < int p + k\<close> have j: "k = (e - int p + 1) + int j" by simp
  define u :: real where "u = 2 powi (e - int p + 1)"
  have u: "u \<noteq> 0" by (simp add: u_def)
  have "(2::real) powi k = u * 2 ^ j"
    unfolding u_def by (subst j) (simp add: power_int_add)
  then have xu: "x = u * of_int (m * 2 ^ j)" by (simp add: assms(1))
  then have "x / u = of_int (m * 2 ^ j)" using u by simp
  then have "round_half_even (x / u) = m * 2 ^ j" by (simp only: round_half_even_of_int)
  moreover have "fl p x = u * of_int (round_half_even (x / u))"
    using xpos by (simp add: fl_def e_def u_def Let_def)
  ultimately show ?thesis using xu by simp
qed

lemma fl_exact_int: "\<bar>n\<bar> < 2 ^ p \<Longrightarrow> fl p (of_int n) = of_int n"
  using fl_exact[of "of_int n" n 0 p] by simp

lemma fl_one [simp]: "0 < p \<Longrightarrow> fl p 1 = 1"
  using fl_exact_int[of 1 p] by simp

lemma fl_numeral: "(numeral k :: int) < 2 ^ p \<Longrightarrow> fl p (numeral k) = numeral k"
  using fl_exact_int[of "numeral k" p] by simp

lemma fl_numeral_half: "(numeral k :: int) < 2 ^ p \<Longrightarrow> fl p (numeral k / 2) = numeral k / 2"
  using fl_exact[of "numeral k / 2" "numeral k" "-1" p] by simp

lemma fl_half [simp]: "0 < p \<Longrightarrow> fl p (1 / 2) = 1 / 2"
  using fl_exact[of "1 / 2" 1 "-1" p] by simp

lemma fl_nonneg: "0 \<le> x \<Longrightarrow> 0 < p \<Longrightarrow> 0 \<le> fl p x"
  using fl_mono[of 0 x p] by simp

lemma fl_le_one: "x \<le> 1 \<Longrightarrow> 0 < p \<Longrightarrow> fl p x \<le> 1"
  using fl_mono[of x 1 p] by simp

lemma py_float_exact: "\<bar>n\<bar> < 2 ^ 53 \<Longrightarrow> py_float n = of_int n"
  by (simp add: py_float_def fl_exact_int)

lemma py_int_of_int [simp]: "py_int (of_int n) = n"
  by (simp add: py_int_def)

lemma fl_idem_pos:
  assumes "0 < x" "0 < p"
  shows "fl p (fl p x) = fl p x"
proof -
  define e where "e = \<lfloor>log 2 x\<rfloor>"
  define u :: real where "u = 2 powi (e - int p + 1)"
  define m where "m = round_half_even (x / u)"
  have u: "0 < u" by (simp add: u_def)
  have fx: "fl p x = u * of_int m"
    using assms(1) by (simp add: fl_def e_def u_def m_def Let_def)
  have hi: "fl p x \<le> 2 powi (e + 1)" using fl_pos_range(2)[OF assms] by (simp add: e_def)
  have e1_u: "2 powi (e + 1) = u * of_int (2 ^ p)"
  proof -
    have "e + 1 = (e - int p + 1) + int p" by simp
    then have "(2::real) powi (e + 1) = 2 powi (e - int p + 1) * 2 powi (int p)"
      by (metis power_int_add zero_neq_numeral)
    then show ?thesis by (simp add: u_def)
  qed
  have "u * of_int m \<le> u * of_int (2 ^ p)" using hi by (simp only: fx e1_u)
  then have mle: "m \<le> 2 ^ p" using u by (simp only: mult_le_cancel_left_pos of_int_le_iff)
  have "0 < fl p x" using assms by (rule fl_pos)
  then have "0 < u * of_int m" by (simp only: fx)
  then have mpos: "0 < m" using u by (simp add: zero_less_mult_iff)
  show ?thesis
  proof (cases "m = 2 ^ p")
    case True
    have "p = Suc (p - 1)" using assms(2) by simp
    then have "(2::int) ^ p = 2 * 2 ^ (p - 1)" by (metis power_Suc)
    then have "fl p x = of_int (2 ^ (p - 1)) * 2 powi ((e - int p + 1) + 1)"
      by (simp add: fx True u_def power_int_add)
    moreover have "\<bar>2 ^ (p - 1) :: int\<bar> < 2 ^ p" using assms(2) by simp
    ultimately show ?thesis by (rule fl_exact)
  next
    case False
    with mle mpos have "\<bar>m\<bar> < 2 ^ p" by simp
    moreover have "fl p x = of_int m * 2 powi (e - int p + 1)" by (simp add: fx u_def)
    ultimately show ?thesis by (rule fl_exact[rotated])
  qed
qed

lemma fl_idem: "0 < p \<Longrightarrow> fl p (fl p x) = fl p x"
proof -
  assume p: "0 < p"
  consider "0 < x" | "x = 0" | "0 < - x" by linarith
  then show ?thesis
  proof cases
    case 1 then show ?thesis using p by (rule fl_idem_pos)
  next
    case 2 then show ?thesis by simp
  next
    case 3
    from fl_idem_pos[OF this p] show ?thesis by (simp add: fl_minus)
  qed
qed

lemma fl_neg_iff: "0 < p \<Longrightarrow> fl p x < 0 \<longleftrightarrow> x < 0"
proof
  assume p: "0 < p" and "fl p x < 0"
  then show "x < 0" using fl_nonneg[of x p] by (cases "0 \<le> x") simp_all
next
  assume p: "0 < p" and "x < 0"
  then have "0 < fl p (- x)" by (intro fl_pos) simp_all
  then show "fl p x < 0" by (simp add: fl_minus)
qed

text \<open>The relative error of rounding is at most \<open>2^-p\<close>.\<close>

lemma fl_abs_error:
  assumes "0 < x" "0 < p"
  shows "\<bar>fl p x - x\<bar> \<le> x / 2 ^ p"
proof -
  define e where "e = \<lfloor>log 2 x\<rfloor>"
  define u :: real where "u = 2 powi (e - int p + 1)"
  have u: "0 < u" by (simp add: u_def)
  have lo: "2 powi e \<le> x" using floor_log2_bounds(1)[OF assms(1)] by (simp add: e_def)
  have fx: "fl p x = u * of_int (round_half_even (x / u))"
    using assms(1) by (simp add: fl_def e_def u_def Let_def)
  have "\<bar>of_int (round_half_even (x / u)) - x / u\<bar> \<le> 1 / 2"
    using round_half_even_lower[of "x / u"] round_half_even_upper[of "x / u"] by linarith
  then have "u * \<bar>of_int (round_half_even (x / u)) - x / u\<bar> \<le> u * (1 / 2)"
    using u by (simp only: mult_le_cancel_left_pos)
  moreover have "u * \<bar>of_int (round_half_even (x / u)) - x / u\<bar> = \<bar>fl p x - x\<bar>"
  proof -
    have "\<bar>fl p x - x\<bar> = \<bar>u * (of_int (round_half_even (x / u)) - x / u)\<bar>"
      using u by (simp add: fx right_diff_distrib)
    also have "\<dots> = u * \<bar>of_int (round_half_even (x / u)) - x / u\<bar>"
      using u by (simp add: abs_mult)
    finally show ?thesis by simp
  qed
  ultimately have err: "\<bar>fl p x - x\<bar> \<le> u / 2" by simp
  have "e = (e - int p + 1) + (int p - 1)" by simp
  then have "(2::real) powi e = u * 2 powi (int p - 1)"
    unfolding u_def by (metis power_int_add zero_neq_numeral)
  moreover have "(2::real) powi (int p - 1) = 2 ^ p / 2"
  proof -
    have "int p - 1 = int (p - 1)" using assms(2) by simp
    moreover have "p = Suc (p - 1)" using assms(2) by simp
    ultimately show ?thesis by (metis power_int_of_nat power_Suc nonzero_mult_div_cancel_left zero_neq_numeral)
  qed
  ultimately have "u / 2 = 2 powi e / 2 ^ p" by simp
  also have "\<dots> \<le> x / 2 ^ p" using lo by (simp add: divide_right_mono)
  finally show ?thesis using err by linarith
qed

lemma fl_rel_lower: "0 \<le> x \<Longrightarrow> 0 < p \<Longrightarrow> (1 - 1 / 2 ^ p) * x \<le> fl p x"
  using fl_abs_error[of x p] by (cases "x = 0") (simp_all add: algebra_simps abs_le_iff)

lemma fl_rel_upper: "0 \<le> x \<Longrightarrow> 0 < p \<Longrightarrow> fl p x \<le> (1 + 1 / 2 ^ p) * x"
  using fl_abs_error[of x p] by (cases "x = 0") (simp_all add: algebra_simps abs_le_iff)

lemmas fl_eval = fadd_def fsub_def fmul_def fdiv_def fl_numeral fl_minus

section \<open>The colour wheel\<close>







section \<open>Blending\<close>

text \<open>The binary64 number written \<open>0.002\<close>, and the blend of channel 3 with itself at it.\<close>

lemma double_0_002: "fl 53 (1 / 500) = 1152921504606847 / 576460752303423488"
  by (subst fl_unfold[where k="-9"]) (simp_all add: round_half_even_def Let_def)

lemma blend_channel_3_3:
  "blend_channel 3 3 (1152921504606847 / 576460752303423488) = 2"
proof -
  let ?r = "1152921504606847 / 576460752303423488 :: real"
  have f3: "py_float 3 = 3" using py_float_exact[of 3] by simp
  have a: "fsub 1 ?r = 4494592428115755 / 4503599627370496"
    unfolding fsub_def
    by (subst fl_unfold[where k="-1"]) (simp_all add: round_half_even_def Let_def)
  have b: "fmul 3 (4494592428115755 / 4503599627370496) = 105342010033963 / 35184372088832"
    unfolding fmul_def
    by (subst fl_unfold[where k="1"]) (simp_all add: round_half_even_def Let_def)
  have c: "fmul 3 ?r = 3458764513820541 / 576460752303423488"
    unfolding fmul_def
    by (subst fl_unfold[where k="-8"]) (simp_all add: round_half_even_def Let_def)
  have d: "fadd (105342010033963 / 35184372088832) (3458764513820541 / 576460752303423488)
             = 6755399441055743 / 2251799813685248"
    unfolding fadd_def
    by (subst fl_unfold[where k="1"]) (simp_all add: round_half_even_def Let_def)
  show ?thesis
    by (simp add: blend_channel_def f3 a b c d py_int_def)
qed

text \<open>
  Claim C4 as stated fails in its first part: blending a colour with itself at a ratio inside
  \<open>(0, 1)\<close> is not always the identity. At ratio \<open>0.002\<close> the two rounded products of
  channel 3 add up to \<open>3 - 2^-51\<close>, which \<open>int\<close> truncates to 2.
\<close>

theorem blend_self_counterexample:
  "fl 53 (1 / 500) = 1152921504606847 / 576460752303423488
   \<and> blend_colors (3, 3, 3) (3, 3, 3) (1152921504606847 / 576460752303423488) = (2, 2, 2)
   \<and> blend_colors (3, 3, 3) (3, 3, 3) (1152921504606847 / 576460752303423488) \<noteq> (3, 3, 3)"
  by (simp add: double_0_002 blend_colors_def blend_channel_3_3)

lemma blend_channel_0:
  assumes "\<bar>a\<bar> < 2 ^ 53" shows "blend_channel a b 0 = a"
proof -
  have "fl 53 (of_int a) = of_int a" using assms by (rule fl_exact_int)
  then show ?thesis by (simp add: blend_channel_def py_float_def fmul_def fadd_def fsub_def)
qed

lemma blend_channel_1:
  assumes "\<bar>b\<bar> < 2 ^ 53" shows "blend_channel a b 1 = b"
proof -
  have "fl 53 (of_int b) = of_int b" using assms by (rule fl_exact_int)
  then show ?thesis by (simp add: blend_channel_def py_float_def fmul_def fadd_def fsub_def)
qed

text \<open>
  A self-blend of a channel \<open>c\<close> in \<open>0..255\<close>: each of the four rounded operations has a
  relative error of at most \<open>2^-53\<close>, so the float sum lies strictly between \<open>c - 1\<close> and
  \<open>c + 1\<close>, and its truncation is \<open>c\<close> or \<open>c - 1\<close>.
\<close>

lemma blend_sum_bounds:
  assumes c: "0 \<le> c" and r: "0 \<le> r" "r \<le> 1"
  defines "L \<equiv> 1 - 1 / 2 ^ 53" and "U \<equiv> 1 + 1 / 2 ^ 53"
  shows "L * L * L * c \<le> fadd (fmul c (fsub 1 r)) (fmul c r)"
    and "fadd (fmul c (fsub 1 r)) (fmul c r) \<le> U * U * U * c"
proof -
  have L: "0 \<le> L" "L \<le> 1" and U: "1 \<le> U" "0 \<le> U" by (simp_all add: L_def U_def)
  define x1 where "x1 = fsub 1 r"
  define p1 where "p1 = fmul c x1"
  define p2 where "p2 = fmul c r"
  have r1: "0 \<le> 1 - r" using r by simp
  have x1_lo: "L * (1 - r) \<le> x1" and x1_hi: "x1 \<le> U * (1 - r)"
    using fl_rel_lower[OF r1, of 53] fl_rel_upper[OF r1, of 53]
    by (simp_all add: x1_def fsub_def L_def U_def)
  have x1_0: "0 \<le> x1" using r1 by (simp add: x1_def fsub_def fl_nonneg)
  have cx: "0 \<le> c * x1" using c x1_0 by simp
  have p1_lo': "L * (c * x1) \<le> p1" and p1_hi': "p1 \<le> U * (c * x1)"
    using fl_rel_lower[OF cx, of 53] fl_rel_upper[OF cx, of 53]
    by (simp_all add: p1_def fmul_def L_def U_def)
  have "c * (L * (1 - r)) \<le> c * x1" using x1_lo c by (rule mult_left_mono)
  then have "L * (c * (L * (1 - r))) \<le> L * (c * x1)" using L(1) by (rule mult_left_mono)
  then have p1_lo: "L * L * (c * (1 - r)) \<le> p1" using p1_lo' by (simp add: mult_ac)
  have "c * x1 \<le> c * (U * (1 - r))" using x1_hi c by (rule mult_left_mono)
  then have "U * (c * x1) \<le> U * (c * (U * (1 - r)))" using U(2) by (rule mult_left_mono)
  then have p1_hi: "p1 \<le> U * U * (c * (1 - r))" using p1_hi' by (simp add: mult_ac)
  have cr: "0 \<le> c * r" using c r by simp
  have p2_lo': "L * (c * r) \<le> p2" and p2_hi': "p2 \<le> U * (c * r)"
    using fl_rel_lower[OF cr, of 53] fl_rel_upper[OF cr, of 53]
    by (simp_all add: p2_def fmul_def L_def U_def)
  have Lcr: "0 \<le> L * (c * r)" using L cr by simp
  have "L * (L * (c * r)) \<le> 1 * (L * (c * r))" using L(2) Lcr by (rule mult_right_mono)
  then have p2_lo: "L * L * (c * r) \<le> p2" using p2_lo' by (simp add: mult_ac)
  have Ucr: "0 \<le> U * (c * r)" using U cr by simp
  have "1 * (U * (c * r)) \<le> U * (U * (c * r))" using U(1) Ucr by (rule mult_right_mono)
  then have p2_hi: "p2 \<le> U * U * (c * r)" using p2_hi' by (simp add: mult_ac)
  have "L * L * (c * (1 - r)) + L * L * (c * r) = L * L * c" by (simp add: algebra_simps)
  then have s_lo: "L * L * c \<le> p1 + p2" using p1_lo p2_lo by linarith
  have "U * U * (c * (1 - r)) + U * U * (c * r) = U * U * c" by (simp add: algebra_simps)
  then have s_hi: "p1 + p2 \<le> U * U * c" using p1_hi p2_hi by linarith
  have "0 \<le> L * L * c" using L c by simp
  then have s0: "0 \<le> p1 + p2" using s_lo by linarith
  have S_lo': "L * (p1 + p2) \<le> fl 53 (p1 + p2)" and S_hi': "fl 53 (p1 + p2) \<le> U * (p1 + p2)"
    using fl_rel_lower[OF s0, of 53] fl_rel_upper[OF s0, of 53] by (simp_all add: L_def U_def)
  have "L * (L * L * c) \<le> L * (p1 + p2)" using s_lo L(1) by (rule mult_left_mono)
  then show "L * L * L * c \<le> fadd (fmul c (fsub 1 r)) (fmul c r)"
    using S_lo' by (simp add: fadd_def p1_def p2_def x1_def mult_ac)
  have "U * (p1 + p2) \<le> U * (U * U * c)" using s_hi U(2) by (rule mult_left_mono)
  then show "fadd (fmul c (fsub 1 r)) (fmul c r) \<le> U * U * U * c"
    using S_hi' by (simp add: fadd_def p1_def p2_def x1_def mult_ac)
qed

lemma eps_lower: "(1 - 1 / 1000 :: real) \<le> (1 - 1 / 2 ^ 53) * (1 - 1 / 2 ^ 53) * (1 - 1 / 2 ^ 53)"
  by simp

lemma eps_upper: "(1 + 1 / 2 ^ 53) * (1 + 1 / 2 ^ 53) * (1 + 1 / 2 ^ 53) \<le> (1 + 1 / 1000 :: real)"
  by simp

lemma blend_channel_self:
  assumes a: "0 \<le> a" "a \<le> 255" and r: "0 \<le> r" "r \<le> 1"
  shows "blend_channel a a r = a \<or> blend_channel a a r = a - 1"
proof -
  define c :: real where "c = of_int a"
  define S where "S = fadd (fmul c (fsub 1 r)) (fmul c r)"
  define L3 :: real where "L3 = (1 - 1 / 2 ^ 53) * (1 - 1 / 2 ^ 53) * (1 - 1 / 2 ^ 53)"
  define U3 :: real where "U3 = (1 + 1 / 2 ^ 53) * (1 + 1 / 2 ^ 53) * (1 + 1 / 2 ^ 53)"
  have c: "0 \<le> c" "c \<le> 255" using a by (simp_all add: c_def)
  have "\<bar>a\<bar> < 2 ^ 53" using a by simp
  then have pf: "py_float a = c" unfolding c_def by (rule py_float_exact)
  have lo: "L3 * c \<le> S" and hi: "S \<le> U3 * c"
    using blend_sum_bounds[OF c(1) r] by (simp_all only: S_def L3_def U3_def)
  have L3: "1 - 1 / 1000 \<le> L3" unfolding L3_def by (rule eps_lower)
  have U3: "U3 \<le> 1 + 1 / 1000" unfolding U3_def by (rule eps_upper)
  have "(1 - 1 / 1000) * c \<le> L3 * c" using L3 c(1) by (rule mult_right_mono)
  then have "(1 - 1 / 1000) * c \<le> S" using lo by linarith
  then have lo': "c - c / 1000 \<le> S" by (simp add: algebra_simps)
  then have S_lo: "c - 1 < S" using c by linarith
  have "U3 * c \<le> (1 + 1 / 1000) * c" using U3 c(1) by (rule mult_right_mono)
  then have "S \<le> (1 + 1 / 1000) * c" using hi by linarith
  then have "S \<le> c + c / 1000" by (simp add: algebra_simps)
  then have S_hi: "S < c + 1" using c by linarith
  have S0: "0 \<le> S" using lo' c by linarith
  have "S < of_int (a + 1)" using S_hi by (simp add: c_def)
  then have "\<lfloor>S\<rfloor> < a + 1" by (simp only: floor_less_iff)
  then have f_hi: "\<lfloor>S\<rfloor> \<le> a" by linarith
  have "of_int (a - 1) \<le> S" using S_lo by (simp add: c_def)
  then have f_lo: "a - 1 \<le> \<lfloor>S\<rfloor>" by (simp only: le_floor_iff)
  have "blend_channel a a r = py_int S" by (simp only: blend_channel_def pf S_def)
  also have "\<dots> = \<lfloor>S\<rfloor>" using S0 by (simp only: py_int_def if_True)
  finally show ?thesis using f_hi f_lo by linarith
qed

text \<open>
  Claim C4, amended: for RGB colours, \<open>blend_colors c1 c2 0 = c1\<close> and
  \<open>blend_colors c1 c2 1 = c2\<close>, and the same for every ratio at or below 0 and at or above 1,
  which is clamped. Blending a colour with itself gives, for every ratio, in every channel
  the channel itself or one less; it gives the colour itself for every ratio outside \<open>(0, 1)\<close>.
\<close>

theorem blend_colors_spec:
  "rgb c1 \<Longrightarrow> rgb c2 \<Longrightarrow>
     (r \<le> 0 \<longrightarrow> blend_colors c1 c2 r = c1) \<and> (1 \<le> r \<longrightarrow> blend_colors c1 c2 r = c2)
     \<and> blend_colors c1 c2 0 = c1 \<and> blend_colors c1 c2 1 = c2
     \<and> ((r \<le> 0 \<or> 1 \<le> r) \<longrightarrow> blend_colors c1 c1 r = c1)
     \<and> (case (c1, blend_colors c1 c1 r) of
           ((r1, g1, b1), (r', g', b')) \<Rightarrow>
              (r' = r1 \<or> r' = r1 - 1) \<and> (g' = g1 \<or> g' = g1 - 1) \<and> (b' = b1 \<or> b' = b1 - 1))"
proof -
  assume c1: "rgb c1" and c2: "rgb c2"
  obtain r1 g1 b1 where e1: "c1 = (r1, g1, b1)" by (cases c1) auto
  obtain r2 g2 b2 where e2: "c2 = (r2, g2, b2)" by (cases c2) auto
  have t1: "0 \<le> r1" "r1 \<le> 255" "0 \<le> g1" "g1 \<le> 255" "0 \<le> b1" "b1 \<le> 255"
    using c1 by (simp_all add: rgb_def e1)
  have s1: "\<bar>r1\<bar> < 2 ^ 53" "\<bar>g1\<bar> < 2 ^ 53" "\<bar>b1\<bar> < 2 ^ 53"
    using c1 by (simp_all add: rgb_def e1)
  have s2: "\<bar>r2\<bar> < 2 ^ 53" "\<bar>g2\<bar> < 2 ^ 53" "\<bar>b2\<bar> < 2 ^ 53"
    using c2 by (simp_all add: rgb_def e2)
  have lo: "r \<le> 0 \<Longrightarrow> max 0 (min 1 r) = 0" for r :: real by simp
  have hi: "1 \<le> r \<Longrightarrow> max 0 (min 1 r) = 1" for r :: real by simp
  have z: "blend_colors c1 c2 r = c1" if "r \<le> 0" for c2 r
    using lo[OF that] s1 by (simp add: blend_colors_def e1 blend_channel_0)
  have o: "blend_colors c1 c2 r = c2" if "1 \<le> r" for r
    using hi[OF that] s2 by (simp add: blend_colors_def e2 blend_channel_1)
  have o': "blend_colors c1 c1 r = c1" if "1 \<le> r" for r
    using hi[OF that] s1 by (simp add: blend_colors_def e1 blend_channel_1)
  define q where "q = max 0 (min 1 r)"
  have q: "0 \<le> q" "q \<le> 1" by (simp_all add: q_def)
  have self: "case (c1, blend_colors c1 c1 r) of
           ((r1, g1, b1), (r', g', b')) \<Rightarrow>
              (r' = r1 \<or> r' = r1 - 1) \<and> (g' = g1 \<or> g' = g1 - 1) \<and> (b' = b1 \<or> b' = b1 - 1)"
    using blend_channel_self[OF t1(1,2) q] blend_channel_self[OF t1(3,4) q]
      blend_channel_self[OF t1(5,6) q]
    by (simp add: blend_colors_def e1 q_def Let_def)
  show ?thesis using z o o' self by auto
qed

text \<open>
  The two colours of the gradient scenario, a self-blend at the clamped ratio 7, and the
  self-blend of \<open>(3, 3, 3)\<close> at ratio \<open>0.002\<close>, one less in every channel.
\<close>

theorem blend_colors_spec_witness:
  "rgb (0, 0, 255) \<and> rgb (255, 0, 0)
   \<and> blend_colors (0, 0, 255) (255, 0, 0) 0 = (0, 0, 255)
   \<and> blend_colors (0, 0, 255) (255, 0, 0) 1 = (255, 0, 0)
   \<and> blend_colors (0, 0, 255) (0, 0, 255) 7 = (0, 0, 255)
   \<and> rgb (3, 3, 3)
   \<and> blend_colors (3, 3, 3) (3, 3, 3) (1152921504606847 / 576460752303423488) = (3 - 1, 3 - 1, 3 - 1)"
  using blend_colors_spec[of "(0, 0, 255)" "(255, 0, 0)" 7]
    blend_colors_spec[of "(3, 3, 3)" "(3, 3, 3)" "1152921504606847 / 576460752303423488"]
  by (simp add: rgb_def blend_colors_def blend_channel_3_3)

section \<open>The effect life cycle\<close>

text \<open>
  Claim C5: in a state whose \<open>running\<close> flag is false, \<open>tick\<close> returns the pixel buffer as it
  is and leaves the whole state as it is, whatever \<open>update\<close> would do and whatever the clock
  reads: the frame count, the elapsed time and every pixel keep their values.
\<close>

theorem tick_not_running:
  "\<not> running e \<Longrightarrow> tick upd now0 now e = Inr (pixels e, e)"
  by (simp add: tick_def)

text \<open>
  The same at a concrete effect that was started and stopped, with an \<open>update\<close> that would
  empty the buffer if it ran.
\<close>

theorem tick_not_running_witness:
  "\<not> running (stop (start 5 \<lparr> led_count = 1, fps = 30, frame_time = 1, tree_model = None,
        start_time = None, current_time = 0, frame_count = 0, pixels = [(1, 2, 3)],
        running = False \<rparr>))
   \<and> tick (\<lambda>dt e. Inr (e\<lparr> pixels := [] \<rparr>)) 6 7
        (stop (start 5 \<lparr> led_count = 1, fps = 30, frame_time = 1, tree_model = None,
          start_time = None, current_time = 0, frame_count = 0, pixels = [(1, 2, 3)],
          running = False \<rparr>))
     = Inr ([(1, 2, 3)], \<lparr> led_count = 1, fps = 30, frame_time = 1, tree_model = None,
          start_time = Some 5, current_time = 0, frame_count = 0, pixels = [(1, 2, 3)],
          running = False \<rparr>)"
  using tick_not_running[of
      "stop (start 5 \<lparr> led_count = 1, fps = 30, frame_time = 1, tree_model = None,
         start_time = None, current_time = 0, frame_count = 0, pixels = [(1, 2, 3)],
         running = False \<rparr>)"
      "\<lambda>dt e. Inr (e\<lparr> pixels := [] \<rparr>)" 6 7]
  by (simp add: stop_def start_def)

section \<open>The pixel buffer\<close>

lemma uint_word8_of_int: "0 \<le> k \<Longrightarrow> k \<le> 255 \<Longrightarrow> uint (word_of_int k :: 8 word) = k"
  by (simp add: uint_word_of_int take_bit_eq_mod)

lemma uint_word8_lt: "uint (c :: 8 word) < 256"
  using uint_lt2p[of c] by simp

lemma fade_int_range:
  assumes "0 \<le> a" "a \<le> 1" "0 \<le> k" "k < 256"
  shows "0 \<le> py_int (fmul (of_int k) (fsub 1 a))"
    and "py_int (fmul (of_int k) (fsub 1 a)) \<le> k"
proof -
  let ?x = "fsub 1 a" and ?n = "real_of_int k"
  define y where "y = fmul ?n ?x"
  have x0: "0 \<le> ?x" using assms by (simp add: fsub_def fl_nonneg)
  have x1: "?x \<le> 1" using assms by (simp add: fsub_def fl_le_one)
  have n0: "0 \<le> ?n" using assms by simp
  have "\<bar>k\<bar> < 2 ^ 53" using assms by simp
  then have ex: "fl 53 ?n = ?n" by (rule fl_exact_int)
  have "0 \<le> ?n * ?x" using n0 x0 by (rule mult_nonneg_nonneg)
  then have y0: "0 \<le> y" unfolding y_def fmul_def by (rule fl_nonneg) simp
  have "?n * ?x \<le> ?n * 1" using x1 n0 by (rule mult_left_mono)
  then have "?n * ?x \<le> ?n" by (simp only: mult_1_right)
  then have "fl 53 (?n * ?x) \<le> fl 53 ?n" by (rule fl_mono) simp
  then have y1: "y \<le> ?n" by (simp only: y_def fmul_def ex)
  show "0 \<le> py_int (fmul ?n ?x)" using y0 by (simp add: py_int_def flip: y_def)
  have "\<lfloor>y\<rfloor> \<le> k" using y1 by (simp add: floor_le_iff) 
  then show "py_int (fmul ?n ?x) \<le> k" using y0 by (simp add: py_int_def flip: y_def)
qed

lemma fade_channel_uint:
  "fade_channel a c = word_of_int (py_int (fmul (of_int (uint c)) (fsub 1 a)))"
  by (simp add: fade_channel_def)

lemma fade_channel_spec:
  assumes "0 \<le> a" "a \<le> 1"
  shows "uint (fade_channel a c) = py_int (fmul (of_int (uint c)) (fsub 1 a))"
    and "fade_channel a c \<le> c"
proof -
  define k where "k = py_int (fmul (of_int (uint c)) (fsub 1 a))"
  have k0: "0 \<le> k" and k1: "k \<le> uint c"
    using fade_int_range[OF assms, of "uint c"] uint_word8_lt[of c] by (simp_all add: k_def)
  have k255: "k \<le> 255" using k1 uint_word8_lt[of c] by linarith
  have u: "uint (word_of_int k :: 8 word) = k" using k0 k255 by (rule uint_word8_of_int)
  then show "uint (fade_channel a c) = py_int (fmul (of_int (uint c)) (fsub 1 a))"
    by (simp only: fade_channel_uint k_def)
  have "uint (word_of_int k :: 8 word) \<le> uint c" using u k1 by simp
  then have "(word_of_int k :: 8 word) \<le> c" by (simp only: word_le_def)
  then show "fade_channel a c \<le> c" by (simp only: fade_channel_uint k_def)
qed

lemma fade_channel_0: "fade_channel 0 c = c"
proof -
  have "\<bar>uint c\<bar> < 2 ^ 53" using uint_word8_lt[of c] by simp
  then have e: "fl 53 (real_of_int (uint c)) = real_of_int (uint c)" by (rule fl_exact_int)
  have "fsub 1 0 = 1" by (simp add: fsub_def)
  then have "fmul (real_of_int (uint c)) (fsub 1 0) = real_of_int (uint c)"
    using e by (simp only: fmul_def mult_1_right)
  then show ?thesis by (simp only: fade_channel_uint py_int_of_int word_of_int_uint)
qed

lemma fade_channel_1: "fade_channel 1 c = 0"
  by (simp add: fade_channel_def fmul_def fsub_def py_int_def)

text \<open>
  The constructor establishes \<open>led_count = len(pixels)\<close>, and every method of the class keeps
  the length of the buffer.
\<close>

lemma Effect_init_length:
  "Effect_init cap n f tm = Inr e \<Longrightarrow> led_count e = int (length (pixels e))"
  by (auto simp: Effect_init_def split: if_splits)

text \<open>
  Claim C9: for an index outside \<open>[0, led_count)\<close>, \<open>set_pixel\<close> raises nothing and returns
  the state as it is, whatever the three channel values are. For an index inside (the buffer
  having its \<open>led_count\<close> entries) and channels \<open>r\<close>, \<open>g\<close>, \<open>b\<close> in \<open>0..255\<close> it succeeds,
  changes no field but \<open>pixels\<close>, keeps the length, stores \<open>(r, g, b)\<close> at the index and leaves
  every other pixel as it was.
\<close>

theorem set_pixel_bounds_checked:
  "(\<not> (0 \<le> i \<and> i < led_count e) \<longrightarrow> set_pixel i r g b e = Inr e)
   \<and> (0 \<le> i \<and> i < led_count e \<and> led_count e \<le> int (length (pixels e))
        \<and> uint8_ok r \<and> uint8_ok g \<and> uint8_ok b \<longrightarrow>
        (\<exists>e'. set_pixel i r g b e = Inr e'
           \<and> e' = e\<lparr> pixels := pixels e' \<rparr>
           \<and> length (pixels e') = length (pixels e)
           \<and> (\<forall>j. j < length (pixels e) \<longrightarrow>
                 pixels e' ! j = (if j = nat i then (word_of_int r, word_of_int g, word_of_int b)
                                  else pixels e ! j))
           \<and> (case pixels e' ! nat i of (r', g', b') \<Rightarrow> uint r' = r \<and> uint g' = g \<and> uint b' = b)))"
proof (intro conjI impI)
  assume "\<not> (0 \<le> i \<and> i < led_count e)"
  then show "set_pixel i r g b e = Inr e" by (auto simp add: set_pixel_def)
next
  assume a: "0 \<le> i \<and> i < led_count e \<and> led_count e \<le> int (length (pixels e))
        \<and> uint8_ok r \<and> uint8_ok g \<and> uint8_ok b"
  let ?e' = "e\<lparr> pixels := (pixels e)[nat i := (word_of_int r, word_of_int g, word_of_int b)] \<rparr>"
  have i: "nat i < length (pixels e)" using a by linarith
  have sp: "set_pixel i r g b e = Inr ?e'" using a by (simp add: set_pixel_def)
  have u: "uint (word_of_int r :: 8 word) = r" "uint (word_of_int g :: 8 word) = g"
    "uint (word_of_int b :: 8 word) = b"
    using a by (simp_all add: uint8_ok_def uint_word8_of_int)
  show "\<exists>e'. set_pixel i r g b e = Inr e'
           \<and> e' = e\<lparr> pixels := pixels e' \<rparr>
           \<and> length (pixels e') = length (pixels e)
           \<and> (\<forall>j. j < length (pixels e) \<longrightarrow>
                 pixels e' ! j = (if j = nat i then (word_of_int r, word_of_int g, word_of_int b)
                                  else pixels e ! j))
           \<and> (case pixels e' ! nat i of (r', g', b') \<Rightarrow> uint r' = r \<and> uint g' = g \<and> uint b' = b)"
    using sp i by (intro exI[of _ ?e']) (simp add: nth_list_update u)
qed

text \<open>
  At a buffer of two pixels: indices 2 and -1 are ignored, also with channels that no pixel
  can hold, and index 1 is set.
\<close>

theorem set_pixel_bounds_checked_witness:
  "set_pixel 2 9 9 9 example_effect = Inr example_effect
   \<and> set_pixel (-1) 256 (-1) 300 example_effect = Inr example_effect
   \<and> uint8_ok 255 \<and> uint8_ok 0 \<and> uint8_ok 7
   \<and> set_pixel 1 255 0 7 example_effect
       = Inr (example_effect\<lparr> pixels := [(255, 3, 0), (255, 0, 7)] \<rparr>)"
  using set_pixel_bounds_checked[of 2 example_effect 9 9 9]
    set_pixel_bounds_checked[of "-1" example_effect 256 "-1" 300]
    set_pixel_bounds_checked[of 1 example_effect 255 0 7]
  by (simp add: example_effect_def set_pixel_def uint8_ok_def)

text \<open>
  Claim C10: for a fade amount in \<open>[0, 1]\<close>, \<open>fade_to_black\<close> keeps the length of the buffer and
  replaces every channel \<open>c\<close> by the truncation of the float product \<open>c * (1.0 - amount)\<close>;
  no channel grows and every channel stays in \<open>0..255\<close>. Amount 0 changes nothing (the
  product is \<open>c\<close> itself, so the truncation takes nothing away) and amount 1 gives a black
  buffer.
\<close>

theorem fade_to_black_spec:
  "0 \<le> a \<Longrightarrow> a \<le> 1 \<Longrightarrow>
     length (pixels (fade_to_black a e)) = length (pixels e)
     \<and> (\<forall>i. i < length (pixels e) \<longrightarrow>
           (case (pixels e ! i, pixels (fade_to_black a e) ! i) of
              ((r, g, b), (r', g', b')) \<Rightarrow>
                 uint r' = py_int (fmul (of_int (uint r)) (fsub 1 a))
               \<and> uint g' = py_int (fmul (of_int (uint g)) (fsub 1 a))
               \<and> uint b' = py_int (fmul (of_int (uint b)) (fsub 1 a))
               \<and> r' \<le> r \<and> g' \<le> g \<and> b' \<le> b
               \<and> 0 \<le> uint r' \<and> uint r' \<le> 255 \<and> 0 \<le> uint g' \<and> uint g' \<le> 255
               \<and> 0 \<le> uint b' \<and> uint b' \<le> 255))
     \<and> fade_to_black 0 e = e
     \<and> pixels (fade_to_black 1 e) = replicate (length (pixels e)) (0, 0, 0)"
proof (intro conjI allI impI)
  assume a: "0 \<le> a" "a \<le> 1"
  show "length (pixels (fade_to_black a e)) = length (pixels e)"
    by (simp add: fade_to_black_def)
  have "map (\<lambda>(r, g, b). (fade_channel 0 r, fade_channel 0 g, fade_channel 0 b)) (pixels e)
          = pixels e"
    by (induction "pixels e") (auto simp: fade_channel_0 map_idI)
  then show "fade_to_black 0 e = e"
    by (simp add: fade_to_black_def)
  show "pixels (fade_to_black 1 e) = replicate (length (pixels e)) (0, 0, 0)"
    by (simp add: fade_to_black_def fade_channel_1 case_prod_unfold map_replicate_const)
  fix i assume i: "i < length (pixels e)"
  have b: "\<And>w :: 8 word. uint w \<le> 255"
    using uint_word8_lt by (simp add: order_less_le; smt (verit))
  obtain r g bl where p: "pixels e ! i = (r, g, bl)" by (cases "pixels e ! i") auto
  show "case (pixels e ! i, pixels (fade_to_black a e) ! i) of
              ((r, g, b), (r', g', b')) \<Rightarrow>
                 uint r' = py_int (fmul (of_int (uint r)) (fsub 1 a))
               \<and> uint g' = py_int (fmul (of_int (uint g)) (fsub 1 a))
               \<and> uint b' = py_int (fmul (of_int (uint b)) (fsub 1 a))
               \<and> r' \<le> r \<and> g' \<le> g \<and> b' \<le> b
               \<and> 0 \<le> uint r' \<and> uint r' \<le> 255 \<and> 0 \<le> uint g' \<and> uint g' \<le> 255
               \<and> 0 \<le> uint b' \<and> uint b' \<le> 255"
    using i p fade_channel_spec[OF a] b by (simp add: fade_to_black_def del: of_int_uint)
qed

text \<open>Half the brightness: 255 becomes 127, 3 becomes 1, 5 becomes 2.\<close>

theorem fade_to_black_spec_witness:
  "(0::real) \<le> 1 / 2 \<and> (1::real) / 2 \<le> 1
   \<and> pixels (fade_to_black (1 / 2) example_effect) = [(127, 1, 0), (2, 2, 3)]
   \<and> pixels (fade_to_black 1 example_effect) = [(0, 0, 0), (0, 0, 0)]"
  using fade_to_black_spec[of "1 / 2" example_effect]
  by (simp add: example_effect_def fade_to_black_def fade_channel_def fmul_def fsub_def
      fl_numeral_half fl_numeral py_int_def)

section \<open>Elapsed time\<close>

text \<open>
  Claim C2 as stated fails: \<open>tick\<close> adds \<open>now - (start_time + current_time)\<close> whatever its
  sign. With the start at 0 and the clock reading 2 and then 1, the elapsed time is 2 after
  the first tick and 1 after the second.
\<close>

theorem elapsed_time_decreases:
  "elapsed_trace (\<lambda>dt e. Inr e) 0 [2, 1] (start 0 example_effect) = Inr [2, 1]"
  by (simp add: tick_def start_def example_effect_def Let_def fl_eval)

lemma tick_running:
  assumes "running e" "start_time e = Some s"
  shows "tick upd now0 now e =
     (case upd (fsub now (fadd s (current_time e)))
             (e\<lparr> start_time := Some s,
                current_time := fadd (current_time e) (fsub now (fadd s (current_time e))),
                frame_count := frame_count e + 1 \<rparr>) of
        Inl err \<Rightarrow> Inl err | Inr e2 \<Rightarrow> Inr (pixels e2, e2))"
  using assms by (simp add: tick_def Let_def)

lemma elapsed_step:
  assumes "is_double ct"
  shows "(fadd s ct \<le> now \<longrightarrow> ct \<le> fadd ct (fsub now (fadd s ct)))
       \<and> (now < fadd s ct \<longrightarrow> fadd ct (fsub now (fadd s ct)) \<le> ct)"
proof (intro conjI impI)
  let ?dt = "fsub now (fadd s ct)"
  have ct: "fl 53 ct = ct" using assms by (simp add: is_double_def)
  { assume "fadd s ct \<le> now"
    then have "0 \<le> ?dt" by (simp add: fsub_def fl_nonneg)
    then have "fl 53 ct \<le> fl 53 (ct + ?dt)" by (intro fl_mono) simp_all
    then show "ct \<le> fadd ct ?dt" by (simp add: fadd_def ct) }
  { assume "now < fadd s ct"
    then have "?dt < 0" by (simp add: fsub_def fl_neg_iff)
    then have "fl 53 (ct + ?dt) \<le> fl 53 ct" by (intro fl_mono) simp_all
    then show "fadd ct ?dt \<le> ct" by (simp add: fadd_def ct) }
qed

text \<open>
  The \<open>update\<close> of the height gradient, like that of every effect of the repository, leaves
  the clock fields alone, which is what the theorem below asks of \<open>upd\<close>.
\<close>

lemma set_pixel_clock:
  "set_pixel i r g b e = Inr e' \<Longrightarrow>
     current_time e' = current_time e \<and> start_time e' = start_time e \<and> running e' = running e
     \<and> heights e' = heights e \<and> colors e' = colors e"
  by (auto simp: set_pixel_def split: if_splits)

lemma update_loop_clock:
  "update_loop is off e = Inr e' \<Longrightarrow>
     current_time e' = current_time e \<and> start_time e' = start_time e \<and> running e' = running e"
proof (induction "is" arbitrary: e)
  case Nil
  then show ?case by simp
next
  case (Cons i rest)
  then show ?case
    by (auto split: sum.splits prod.splits dest!: set_pixel_clock Cons.IH)
qed

lemma update_clock:
  "update d x = Inr y \<Longrightarrow>
     current_time y = current_time x \<and> start_time y = start_time x \<and> running y = running x"
  unfolding update_def Let_def by (rule update_loop_clock)

text \<open>
  Claim C2, amended: in every run of ticks of a running effect, whatever the readings, each
  tick sets the elapsed time to \<open>prev + (now - (start + prev))\<close> in float arithmetic, where
  \<open>prev\<close> is the elapsed time before the tick. The elapsed time does not decrease across a
  tick whose reading is at or after \<open>start + prev\<close>, and does not increase across a tick whose
  reading is before it.
\<close>

theorem tick_elapsed_per_step:
  assumes run: "running e" and st: "start_time e = Some s" and dbl: "is_double (current_time e)"
    and upd: "\<And>d x y. upd d x = Inr y \<Longrightarrow>
                current_time y = current_time x \<and> start_time y = start_time x \<and> running y = running x"
    and tr: "elapsed_trace upd now0 rs e = Inr ts"
  shows "length ts = length rs
     \<and> (\<forall>i. i < length rs \<longrightarrow>
           (let prev = (current_time e # ts) ! i; now = rs ! i in
              ts ! i = fadd prev (fsub now (fadd s prev))
            \<and> (fadd s prev \<le> now \<longrightarrow> prev \<le> ts ! i)
            \<and> (now < fadd s prev \<longrightarrow> ts ! i \<le> prev)))"
  using run st dbl tr
proof (induction rs arbitrary: e ts)
  case Nil
  then show ?case by simp
next
  case (Cons now rest)
  let ?ct = "current_time e"
  let ?ct' = "fadd ?ct (fsub now (fadd s ?ct))"
  from Cons.prems(4) obtain buf e' ts' where
    t: "tick upd now0 now e = Inr (buf, e')" and
    r: "elapsed_trace upd now0 rest e' = Inr ts'" and
    ts: "ts = current_time e' # ts'"
    by (auto split: sum.splits)
  from t Cons.prems(1,2) have e': "current_time e' = ?ct'" "start_time e' = Some s" "running e'"
    by (auto simp: tick_running split: sum.splits dest!: upd)
  have d': "is_double (current_time e')"
    by (simp add: e'(1) is_double_def fadd_def fl_idem)
  note IH = Cons.IH[OF e'(3) e'(2) d' r]
  have len: "length ts = length (now # rest)" using IH ts by simp
  have step: "\<forall>i. i < length (now # rest) \<longrightarrow>
           (let prev = (?ct # ts) ! i; nw = (now # rest) ! i in
              ts ! i = fadd prev (fsub nw (fadd s prev))
            \<and> (fadd s prev \<le> nw \<longrightarrow> prev \<le> ts ! i)
            \<and> (nw < fadd s prev \<longrightarrow> ts ! i \<le> prev))"
  proof (intro allI impI)
    fix i assume i: "i < length (now # rest)"
    show "let prev = (?ct # ts) ! i; nw = (now # rest) ! i in
              ts ! i = fadd prev (fsub nw (fadd s prev))
            \<and> (fadd s prev \<le> nw \<longrightarrow> prev \<le> ts ! i)
            \<and> (nw < fadd s prev \<longrightarrow> ts ! i \<le> prev)"
    proof (cases i)
      case 0
      then show ?thesis
        using elapsed_step[OF Cons.prems(3), of s now] by (simp add: ts e'(1) Let_def)
    next
      case (Suc j)
      with i have "j < length rest" by simp
      with IH have "let prev = (current_time e' # ts') ! j; nw = rest ! j in
              ts' ! j = fadd prev (fsub nw (fadd s prev))
            \<and> (fadd s prev \<le> nw \<longrightarrow> prev \<le> ts' ! j)
            \<and> (nw < fadd s prev \<longrightarrow> ts' ! j \<le> prev)" by blast
      then show ?thesis unfolding Suc ts Let_def nth_Cons_Suc .
    qed
  qed
  show ?case using len step by blast
qed

text \<open>Readings 1, 3 and 2 after a start at 0: the elapsed times are 1, 3 and 2.\<close>

theorem tick_elapsed_per_step_witness:
  "running (start 0 example_effect) \<and> start_time (start 0 example_effect) = Some 0
   \<and> is_double (current_time (start 0 example_effect))
   \<and> elapsed_trace (\<lambda>dt e. Inr e) 0 [1, 3, 2] (start 0 example_effect) = Inr [1, 3, 2]
   \<and> length [1, 3, 2 :: real] = length [1, 3, 2 :: real]"
  using tick_elapsed_per_step[of "start 0 example_effect" 0 "\<lambda>dt e. Inr e" 0 "[1, 3, 2]" "[1, 3, 2]"]
  by (simp add: tick_def start_def example_effect_def Let_def fl_eval is_double_def)

section \<open>Construction of the tree model\<close>


lemma length_linspace01 [simp]: "length (linspace01 k) = k"
  by (simp add: linspace01_def)







text \<open>The example models are what the constructor returns.\<close>

lemma fl_quarter [simp]: "0 < p \<Longrightarrow> fl p (1 / 4) = 1 / 4"
  using fl_exact[of "1 / 4" 1 "-2" p] by simp

lemma upt_3: "[0 ..< 3] = [0, 1, 2]" and upt_4: "[0 ..< 4] = [0, 1, 2, 3]"
  by (simp_all add: upt_rec)


lemma line3_init: "TreeModel_init None 3 = Inr line3_model"
  by (simp add: TreeModel_init_def create_linear_fallback_def linspace01_def upt_3
      calculate_bounds_def line3_model_def column_def np_mean_axis0_def fl_eval fl_numeral_half)


lemma line3_heights: "get_height_normalized line3_model = Inr [0, 1 / 2, 1]"
  by (simp add: get_height_normalized_def line3_model_def column_def fdiv32_def fsub32_def)





section \<open>Normalized height\<close>






section \<open>The height gradient at offset 0\<close>

lemmas color_eval = led_color_def interpolate_colors_def blend_colors_def blend_channel_def
  py_fmod_def py_int_def py_float_def py_index_def blue_red_def Let_def fl_eval fl_numeral_half

lemma led_color_bottom: "led_color (Some blue_red) 0 0 = Inr (0, 0, 255)"
  by (simp add: color_eval)

lemma led_color_middle: "led_color (Some blue_red) 0 (1 / 2) = Inr (127, 0, 127)"
  by (simp add: color_eval)

lemma led_color_top: "led_color (Some blue_red) 0 1 = Inr (0, 0, 255)"
  by (simp add: color_eval)

lemma interpolate_top: "interpolate_colors blue_red 1 = Inr (255, 0, 0)"
  by (simp add: color_eval)

lemma buffer3: "(replicate 3 a)[0 := x, Suc 0 := y, 2 := z] = [x, y, z]"
  by (simp add: numeral_3_eq_3 numeral_2_eq_2)

text \<open>
  Claim C1 at its scenario. On the fallback line of three LEDs (heights \<open>0\<close>, \<open>1/2\<close>, \<open>1\<close>)
  with the colours blue and red and no animation, \<open>update\<close> writes blue at height 0 and
  \<open>(127, 0, 127)\<close> at height \<open>1/2\<close>, as the claim says, but blue again at height 1, where the
  claim says red: \<open>1.0 % 1.0\<close> is \<open>0.0\<close>. \<open>_interpolate_colors\<close> itself returns red at position 1.
\<close>

theorem height_gradient_top_led:
  "bindE (TreeModel_init None 3) (\<lambda>m.
     bindE (HeightGradientEffect_init 1000 3 30 (Some m) (Some blue_red) False (1 / 5)) (\<lambda>e.
       bindE (update 0 e) (\<lambda>e'. Inr (heights e', pixels e'))))
     = Inr ([0, 1 / 2, 1], [(0, 0, 255), (127, 0, 127), (0, 0, 255)])
   \<and> led_color (Some blue_red) 0 0 = Inr (0, 0, 255)
   \<and> led_color (Some blue_red) 0 (1 / 2) = Inr (127, 0, 127)
   \<and> led_color (Some blue_red) 0 1 = Inr (0, 0, 255)
   \<and> interpolate_colors blue_red 1 = Inr (255, 0, 0)"
  by (simp add: line3_init line3_heights HeightGradientEffect_init_def Effect_init_def
      float_of_int_overflows_def fl_numeral
      effect.defs height_gradient.defs update_def upt_3 led_color_bottom led_color_middle
      led_color_top interpolate_top set_pixel_def uint8_ok_def py_index_def buffer3)

section \<open>Constructors of the spatially aware effects\<close>













end
